theory Spec2Isabelle
  imports Main
begin

section \<open>The spreadsheet engine of \<^verbatim>\<open>spreadsheet.ts\<close>\<close>

subsection \<open>Numbers\<close>

text \<open>
  A JavaScript number is an IEEE-754 double. The evaluator never branches on a number, so
  the development keeps only what it can state exactly: \<open>Integral n\<close> is the double whose
  value is the integer \<open>n\<close>, with \<open>\<bar>n\<bar> \<le> 2^53\<close>, where double arithmetic is exact;
  \<open>NonIntegral\<close> stands for every other double (fractions, larger magnitudes, the
  infinities and NaN), about which nothing more is said. \<open>+0\<close> and \<open>-0\<close> are both
  \<open>Integral 0\<close>.
\<close>

datatype number = Integral int | NonIntegral

definition exact :: "int \<Rightarrow> number" where
  "exact n = (if \<bar>n\<bar> \<le> 9007199254740992 then Integral n else NonIntegral)"

fun js_add :: "number \<Rightarrow> number \<Rightarrow> number" where
  "js_add (Integral a) (Integral b) = exact (a + b)"
| "js_add _ _ = NonIntegral"

fun js_sub :: "number \<Rightarrow> number \<Rightarrow> number" where
  "js_sub (Integral a) (Integral b) = exact (a - b)"
| "js_sub _ _ = NonIntegral"

fun js_neg :: "number \<Rightarrow> number" where
  "js_neg (Integral a) = exact (- a)"
| "js_neg _ = NonIntegral"

fun js_mul :: "number \<Rightarrow> number \<Rightarrow> number" where
  "js_mul (Integral a) (Integral b) = exact (a * b)"
| "js_mul _ _ = NonIntegral"

fun js_div :: "number \<Rightarrow> number \<Rightarrow> number" where
  "js_div (Integral a) (Integral b) =
     (if b \<noteq> 0 \<and> b dvd a then exact (a div b) else NonIntegral)"
| "js_div _ _ = NonIntegral"

fun js_min :: "number \<Rightarrow> number \<Rightarrow> number" where
  "js_min (Integral a) (Integral b) = Integral (min a b)"
| "js_min _ _ = NonIntegral"

fun js_max :: "number \<Rightarrow> number \<Rightarrow> number" where
  "js_max (Integral a) (Integral b) = Integral (max a b)"
| "js_max _ _ = NonIntegral"

subsection \<open>The operator table \<^verbatim>\<open>FNS\<close>\<close>

text \<open>
  \<^verbatim>\<open>FNS[operator].apply(null, args)\<close> binds the parameters to the leading arguments; a
  missing argument is \<^verbatim>\<open>undefined\<close>, which arithmetic turns into NaN, and
  surplus arguments are ignored. Only \<^verbatim>\<open>'-'\<close> looks at whether its second
  parameter is \<^verbatim>\<open>undefined\<close>. The test \<^verbatim>\<open>operator in FNS\<close> is membership among
  the six keys of the table; the names that every object inherits from
  \<^verbatim>\<open>Object.prototype\<close>, for which the test succeeds as well, are left aside: no
  formula has such an operator.
\<close>

definition FNS_keys :: "string list" where
  "FNS_keys = [''+'', ''-'', ''*'', ''/'', ''min'', ''max'']"

fun binary :: "(number \<Rightarrow> number \<Rightarrow> number) \<Rightarrow> number list \<Rightarrow> number" where
  "binary f (a # b # _) = f a b"
| "binary f _ = NonIntegral"

fun minus :: "number list \<Rightarrow> number" where
  "minus [] = NonIntegral"
| "minus [a] = js_neg a"
| "minus (a # b # _) = js_sub a b"

definition FNS :: "string \<Rightarrow> number list \<Rightarrow> number" where
  "FNS operator args =
     (if operator = ''+'' then binary js_add args
      else if operator = ''-'' then minus args
      else if operator = ''*'' then binary js_mul args
      else if operator = ''/'' then binary js_div args
      else if operator = ''min'' then binary js_min args
      else binary js_max args)"

subsection \<open>Formulas and the cell store\<close>

text \<open>
  \<^verbatim>\<open>Ast\<close> comes from the parser module \<^verbatim>\<open>expr-parser.js\<close>, which is not part of the
  sources. Its three kinds are \<open>Num\<close>, \<open>Ref\<close> and \<open>App\<close>; \<open>OtherKind\<close> stands for a
  node of any other kind, for which the evaluator has a branch of its own. The
  reference of a \<open>Ref\<close> node is relative: \<^verbatim>\<open>ast.toText(CellRef.parseRef(cellId))\<close> gives
  the cell it denotes inside cell \<open>cellId\<close>. That resolution is the parameter \<open>toText\<close>
  of every function below, taken to yield a cell identifier for every reference and
  cell, and the parser is the parameter \<open>parse\<close> of \<open>eval\<close>.
\<close>

type_synonym cellId = string

datatype 'r Ast =
    Num number
  | Ref 'r
  | App string "'r Ast list"
  | OtherKind string

text \<open>
  A JavaScript object used as a dictionary is an association list in insertion order,
  which is the order \<^verbatim>\<open>for ... in\<close> enumerates the keys in (cell identifiers are
  grid positions such as \<^verbatim>\<open>a1\<close>: never array indices, never names inherited from
  \<^verbatim>\<open>Object.prototype\<close>). Assigning to a present key keeps its place; a new key goes last.
  A spreadsheet is its two dictionaries, \<^verbatim>\<open>cells\<close> (committed) and \<^verbatim>\<open>shadowCells\<close>
  (staging); its read-only \<^verbatim>\<open>name\<close> plays no part in an edit and is left out.
\<close>

fun assign :: "'k \<Rightarrow> 'v \<Rightarrow> ('k \<times> 'v) list \<Rightarrow> ('k \<times> 'v) list" where
  "assign k v [] = [(k, v)]"
| "assign k v (p # ps) = (if fst p = k then (k, v) # ps else p # assign k v ps)"

definition delete_key :: "'k \<Rightarrow> ('k \<times> 'v) list \<Rightarrow> ('k \<times> 'v) list" where
  "delete_key k ps = filter (\<lambda>p. fst p \<noteq> k) ps"

definition hasOwnProperty :: "('k \<times> 'v) list \<Rightarrow> 'k \<Rightarrow> bool" where
  "hasOwnProperty obj k = (map_of obj k \<noteq> None)"

type_synonym Updates = "(cellId \<times> number) list"

record 'r spreadsheet =
  cells :: "(cellId \<times> 'r Ast) list"
  shadowCells :: "(cellId \<times> 'r Ast) list"

definition makeSpreadsheet :: "'r spreadsheet" where
  "makeSpreadsheet = \<lparr>cells = [], shadowCells = []\<rparr>"

subsection \<open>Dependency queries\<close>

fun isDependent :: "('r \<Rightarrow> cellId \<Rightarrow> cellId) \<Rightarrow> 'r Ast \<Rightarrow> cellId \<Rightarrow> cellId \<Rightarrow> bool" where
  "isDependent toText (Ref r) cellId baseCellId = (toText r cellId = baseCellId)"
| "isDependent toText (App fn kids) cellId baseCellId =
     list_ex (\<lambda>operand. isDependent toText operand cellId baseCellId) kids"
| "isDependent toText (Num v) cellId baseCellId = False"
| "isDependent toText (OtherKind k) cellId baseCellId = False"

definition findDependentCells ::
  "('r \<Rightarrow> cellId \<Rightarrow> cellId) \<Rightarrow> 'r spreadsheet \<Rightarrow> cellId \<Rightarrow> cellId list" where
  "findDependentCells toText ss baseCellId =
     map fst (filter (\<lambda>(cellId, ast). isDependent toText ast cellId baseCellId)
                     (shadowCells ss))"

definition findDependentCells2 ::
  "('r \<Rightarrow> cellId \<Rightarrow> cellId) \<Rightarrow> 'r spreadsheet \<Rightarrow> cellId \<Rightarrow> cellId list" where
  "findDependentCells2 toText ss baseCellId =
     map fst (filter (\<lambda>(cellId, ast). cellId \<noteq> baseCellId
                                  \<and> \<not> isDependent toText ast cellId baseCellId)
                     (shadowCells ss))"

subsection \<open>Commit and rollback\<close>

definition recoverCell :: "'r spreadsheet \<Rightarrow> cellId \<Rightarrow> 'r spreadsheet" where
  "recoverCell ss cellId =
     (case map_of (cells ss) cellId of
        Some ast \<Rightarrow> ss\<lparr>shadowCells := assign cellId ast (shadowCells ss)\<rparr>
      | None \<Rightarrow> ss)"

definition coverCell :: "'r spreadsheet \<Rightarrow> cellId \<Rightarrow> 'r spreadsheet" where
  "coverCell ss cellId =
     (case map_of (shadowCells ss) cellId of
        Some ast \<Rightarrow> ss\<lparr>cells := assign cellId ast (cells ss)\<rparr>
      | None \<Rightarrow> ss)"

subsection \<open>The evaluator\<close>

text \<open>
  \<^verbatim>\<open>evaluateAndUpdate\<close> and \<^verbatim>\<open>evaluateFormula\<close> call each other, and nothing in the
  code bounds the recursion, so the functions take the call depth still available: a
  call at depth \<open>0\<close> is \<open>OutOfStack\<close>, and a call that is \<open>OutOfStack\<close> at every
  depth is one that recurses for ever (until the engine's stack is exhausted, which
  surfaces as a \<^verbatim>\<open>RangeError\<close> that \<^verbatim>\<open>eval\<close> throws on). An exception is the
  outcome \<open>Throw\<close>; the
  spreadsheet and the memo are returned in every case, because \<^verbatim>\<open>recoverCell\<close> writes
  to the spreadsheet just before the cycle fault is thrown.
\<close>

datatype exn =
    CircularReferenceError cellId
  | CellDoesNotExist cellId
  | UnknownOperator string
  | InvalidAstType string

datatype 'a outcome = Return 'a | Throw exn | OutOfStack

function (sequential) evaluateAndUpdate ::
    "nat \<Rightarrow> ('r \<Rightarrow> cellId \<Rightarrow> cellId) \<Rightarrow> 'r spreadsheet \<Rightarrow> cellId \<Rightarrow> Updates \<Rightarrow> cellId
       \<Rightarrow> number outcome \<times> 'r spreadsheet \<times> Updates"
  and evaluateFormula ::
    "nat \<Rightarrow> ('r \<Rightarrow> cellId \<Rightarrow> cellId) \<Rightarrow> 'r spreadsheet \<Rightarrow> cellId \<Rightarrow> 'r Ast \<Rightarrow> Updates \<Rightarrow> cellId
       \<Rightarrow> number outcome \<times> 'r spreadsheet \<times> Updates"
  and evaluateOperands ::
    "nat \<Rightarrow> ('r \<Rightarrow> cellId \<Rightarrow> cellId) \<Rightarrow> 'r spreadsheet \<Rightarrow> cellId \<Rightarrow> 'r Ast list \<Rightarrow> Updates \<Rightarrow> cellId
       \<Rightarrow> number list outcome \<times> 'r spreadsheet \<times> Updates"
  and forDependents ::
    "nat \<Rightarrow> ('r \<Rightarrow> cellId \<Rightarrow> cellId) \<Rightarrow> 'r spreadsheet \<Rightarrow> cellId \<Rightarrow> cellId list \<Rightarrow> Updates \<Rightarrow> cellId
       \<Rightarrow> unit outcome \<times> 'r spreadsheet \<times> Updates"
where
  "evaluateAndUpdate 0 toText ss cellId updatedCells parentCellId =
     (OutOfStack, ss, updatedCells)"
| "evaluateAndUpdate (Suc n) toText ss cellId updatedCells parentCellId =
     (case map_of (shadowCells ss) cellId of
        None \<Rightarrow> (Throw (CellDoesNotExist cellId), ss, updatedCells)
      | Some cell \<Rightarrow>
          (case evaluateFormula n toText ss cellId cell updatedCells parentCellId of
             (Return result, ss1, upd1) \<Rightarrow>
               (case forDependents n toText ss1 cellId (findDependentCells toText ss1 cellId)
                       (assign cellId result upd1) parentCellId of
                  (Return u, ss2, upd2) \<Rightarrow> (Return result, ss2, upd2)
                | (Throw e, ss2, upd2) \<Rightarrow> (Throw e, ss2, upd2)
                | (OutOfStack, ss2, upd2) \<Rightarrow> (OutOfStack, ss2, upd2))
           | (Throw e, ss1, upd1) \<Rightarrow> (Throw e, ss1, upd1)
           | (OutOfStack, ss1, upd1) \<Rightarrow> (OutOfStack, ss1, upd1)))"
| "evaluateFormula 0 toText ss basecellId ast updatedCells parentCellId =
     (OutOfStack, ss, updatedCells)"
| "evaluateFormula (Suc n) toText ss basecellId (Num v) updatedCells parentCellId =
     (Return v, ss, updatedCells)"
| "evaluateFormula (Suc n) toText ss basecellId (Ref r) updatedCells parentCellId =
     (let cellId = toText r basecellId in
      if cellId = parentCellId then
        (Throw (CircularReferenceError cellId), recoverCell ss parentCellId, updatedCells)
      else if \<not> hasOwnProperty (shadowCells ss) cellId then (Return (Integral 0), ss, updatedCells)
      else (case map_of updatedCells cellId of
              Some v \<Rightarrow> (Return v, ss, updatedCells)
            | None \<Rightarrow> evaluateAndUpdate n toText ss cellId updatedCells parentCellId))"
| "evaluateFormula (Suc n) toText ss basecellId (App fn kids) updatedCells parentCellId =
     (case evaluateOperands n toText ss basecellId kids updatedCells parentCellId of
        (Return args, ss1, upd1) \<Rightarrow>
          (if fn \<in> set FNS_keys then (Return (FNS fn args), ss1, upd1)
           else (Throw (UnknownOperator fn), ss1, upd1))
      | (Throw e, ss1, upd1) \<Rightarrow> (Throw e, ss1, upd1)
      | (OutOfStack, ss1, upd1) \<Rightarrow> (OutOfStack, ss1, upd1))"
| "evaluateFormula (Suc n) toText ss basecellId (OtherKind k) updatedCells parentCellId =
     (Throw (InvalidAstType k), ss, updatedCells)"
| "evaluateOperands n toText ss basecellId [] updatedCells parentCellId =
     (Return [], ss, updatedCells)"
| "evaluateOperands n toText ss basecellId (operand # operands) updatedCells parentCellId =
     (case evaluateFormula n toText ss basecellId operand updatedCells parentCellId of
        (Return v, ss1, upd1) \<Rightarrow>
          (case evaluateOperands n toText ss1 basecellId operands upd1 parentCellId of
             (Return vs, ss2, upd2) \<Rightarrow> (Return (v # vs), ss2, upd2)
           | (Throw e, ss2, upd2) \<Rightarrow> (Throw e, ss2, upd2)
           | (OutOfStack, ss2, upd2) \<Rightarrow> (OutOfStack, ss2, upd2))
      | (Throw e, ss1, upd1) \<Rightarrow> (Throw e, ss1, upd1)
      | (OutOfStack, ss1, upd1) \<Rightarrow> (OutOfStack, ss1, upd1))"
| "forDependents n toText ss cellId [] updatedCells parentCellId =
     (Return (), ss, updatedCells)"
| "forDependents n toText ss cellId (dependent # dependents) updatedCells parentCellId =
     (if cellId = parentCellId \<and> cellId \<noteq> dependent then
        (case evaluateAndUpdate n toText ss dependent updatedCells dependent of
           (Return v, ss1, upd1) \<Rightarrow> forDependents n toText ss1 cellId dependents upd1 dependent
         | (Throw e, ss1, upd1) \<Rightarrow> (Throw e, ss1, upd1)
         | (OutOfStack, ss1, upd1) \<Rightarrow> (OutOfStack, ss1, upd1))
      else forDependents n toText ss cellId dependents updatedCells parentCellId)"
  by pat_completeness auto
termination
  by (relation "measures
        [\<lambda>x. case x of Inl (Inl (n, _)) \<Rightarrow> n | Inl (Inr (n, _)) \<Rightarrow> n
                        | Inr (Inl (n, _)) \<Rightarrow> n | Inr (Inr (n, _)) \<Rightarrow> n,
         \<lambda>x. case x of Inl _ \<Rightarrow> 0 | Inr _ \<Rightarrow> 1,
         \<lambda>x. case x of Inl _ \<Rightarrow> 0
                        | Inr (Inl (_, _, _, _, kids, _)) \<Rightarrow> length kids
                        | Inr (Inr (_, _, _, _, dependents, _)) \<Rightarrow> length dependents]")
     auto

subsection \<open>The edit operation\<close>

text \<open>
  \<^verbatim>\<open>parse(expr, cellId)\<close> either throws, or returns a \<^verbatim>\<open>Result\<close> that is an error, or
  returns the formula. \<^verbatim>\<open>eval\<close> returns a \<^verbatim>\<open>Result\<close> (\<open>Return\<close>), or re-throws an
  exception that is not the cycle fault (\<open>Throw\<close>). It is declared \<^verbatim>\<open>async\<close> but
  awaits nothing: it runs to its end in one piece, and what it throws rejects the
  promise that its caller holds.
\<close>

datatype 'r parsed = ParseThrows | ParseError | ParseOk "'r Ast"

datatype errorCode = SYNTAX | CIRCULAR_REF

datatype 'a Result = okResult 'a | errResult errorCode

definition eval ::
  "nat \<Rightarrow> (string \<Rightarrow> cellId \<Rightarrow> 'r parsed) \<Rightarrow> ('r \<Rightarrow> cellId \<Rightarrow> cellId) \<Rightarrow> 'r spreadsheet
     \<Rightarrow> cellId \<Rightarrow> string \<Rightarrow> Updates Result outcome \<times> 'r spreadsheet" where
  "eval n parse toText ss cellId expr =
     (case parse expr cellId of
        ParseThrows \<Rightarrow> (Return (errResult SYNTAX), ss)
      | ParseError \<Rightarrow> (Return (errResult SYNTAX), ss)
      | ParseOk ast \<Rightarrow>
          (case evaluateAndUpdate n toText
                  (ss\<lparr>shadowCells := assign cellId ast (shadowCells ss)\<rparr>) cellId [] cellId of
             (Throw (CircularReferenceError c), ss1, upd1) \<Rightarrow>
               (Return (errResult CIRCULAR_REF), ss1)
           | (Throw e, ss1, upd1) \<Rightarrow> (Throw e, ss1)
           | (OutOfStack, ss1, upd1) \<Rightarrow> (OutOfStack, ss1)
           | (Return v, ss1, updatedCells) \<Rightarrow>
               (Return (okResult (fold delete_key (findDependentCells2 toText ss1 cellId)
                                       updatedCells)),
                coverCell ss1 cellId)))"

subsection \<open>The parser on the expression texts of the examples\<close>

text \<open>
  Modelled from the spec: the parser and the reference resolution of \<^verbatim>\<open>expr-parser.js\<close>
  are not among the sources. \<open>parse_examples\<close> gives the formula of each expression text
  that the examples below use, and a syntax error for the unfinished text \<^verbatim>\<open>1+\<close>; it
  is applied to no other text. A reference is written as the cell its text names, and
  \<open>toText_examples\<close> resolves it to that cell: each reference of the examples is
  resolved only inside the cell it was typed into.
\<close>

definition parse_examples :: "string \<Rightarrow> cellId \<Rightarrow> cellId parsed" where
  "parse_examples expr cellId =
     (if expr = ''1'' then ParseOk (Num (Integral 1))
      else if expr = ''5'' then ParseOk (Num (Integral 5))
      else if expr = ''a1'' then ParseOk (Ref ''a1'')
      else if expr = ''b1'' then ParseOk (Ref ''b1'')
      else if expr = ''c1'' then ParseOk (Ref ''c1'')
      else if expr = ''a1+1'' then ParseOk (App ''+'' [Ref ''a1'', Num (Integral 1)])
      else if expr = ''b1+1'' then ParseOk (App ''+'' [Ref ''b1'', Num (Integral 1)])
      else if expr = ''-(3)'' then ParseOk (App ''-'' [Num (Integral 3)])
      else if expr = ''5-2'' then ParseOk (App ''-'' [Num (Integral 5), Num (Integral 2)])
      else ParseError)"

definition toText_examples :: "cellId \<Rightarrow> cellId \<Rightarrow> cellId" where
  "toText_examples r cellId = r"

abbreviation a1_plus_1 :: "cellId Ast" where
  "a1_plus_1 \<equiv> App ''+'' [Ref ''a1'', Num (Integral 1)]"

abbreviation b1_plus_1 :: "cellId Ast" where
  "b1_plus_1 \<equiv> App ''+'' [Ref ''b1'', Num (Integral 1)]"

text \<open>The sheets that the examples pass through; each is shown below to be what the
  edits before it leave.\<close>

definition sheet_b1 :: "cellId spreadsheet" where
  "sheet_b1 = \<lparr>cells = [(''b1'', a1_plus_1)], shadowCells = [(''b1'', a1_plus_1)]\<rparr>"

definition sheet_b1_c1 :: "cellId spreadsheet" where
  "sheet_b1_c1 =
     \<lparr>cells = [(''b1'', a1_plus_1), (''c1'', b1_plus_1)],
      shadowCells = [(''b1'', a1_plus_1), (''c1'', b1_plus_1)]\<rparr>"

definition sheet_b1_c1_direct :: "cellId spreadsheet" where
  "sheet_b1_c1_direct =
     \<lparr>cells = [(''b1'', a1_plus_1), (''c1'', Ref ''a1'')],
      shadowCells = [(''b1'', a1_plus_1), (''c1'', Ref ''a1'')]\<rparr>"

definition sheet_a1 :: "cellId spreadsheet" where
  "sheet_a1 = \<lparr>cells = [(''a1'', b1_plus_1)], shadowCells = [(''a1'', b1_plus_1)]\<rparr>"

definition sheet_a1_stale :: "cellId spreadsheet" where
  "sheet_a1_stale = \<lparr>cells = [], shadowCells = [(''a1'', a1_plus_1)]\<rparr>"

definition sheet_a1_b1_stale :: "cellId spreadsheet" where
  "sheet_a1_b1_stale =
     \<lparr>cells = [(''a1'', b1_plus_1)],
      shadowCells = [(''a1'', b1_plus_1), (''b1'', a1_plus_1)]\<rparr>"

text \<open>The sheet with \<open>c1 = 1\<close>, \<open>a1 = c1\<close> and \<open>b1 = a1\<close> committed, and the same
  sheet in the middle of the edit \<open>c1 = b1\<close>, with the new formula of \<open>c1\<close> staged.\<close>

definition sheet_three_cells :: "cellId spreadsheet" where
  "sheet_three_cells =
     \<lparr>cells = [(''c1'', Num (Integral 1)), (''a1'', Ref ''c1''), (''b1'', Ref ''a1'')],
      shadowCells = [(''c1'', Num (Integral 1)), (''a1'', Ref ''c1''), (''b1'', Ref ''a1'')]\<rparr>"

definition sheet_three_cycle :: "cellId spreadsheet" where
  "sheet_three_cycle =
     \<lparr>cells = [(''c1'', Num (Integral 1)), (''a1'', Ref ''c1''), (''b1'', Ref ''a1'')],
      shadowCells = [(''c1'', Ref ''b1''), (''a1'', Ref ''c1''), (''b1'', Ref ''a1'')]\<rparr>"

subsection \<open>The cycle fault among the outcomes\<close>

fun isCircularReferenceError :: "exn \<Rightarrow> bool" where
  "isCircularReferenceError (CircularReferenceError c) = True"
| "isCircularReferenceError _ = False"

fun cycleFault :: "'a outcome \<Rightarrow> bool" where
  "cycleFault (Throw e) = isCircularReferenceError e"
| "cycleFault _ = False"


text \<open>A formula is \<open>knownAst\<close> when each of its nodes has one of the three kinds and each
  of its operators has an entry in \<open>FNS\<close>.\<close>

fun knownAst :: "'r Ast \<Rightarrow> bool" where
  "knownAst (Num v) = True"
| "knownAst (Ref r) = True"
| "knownAst (App fn kids) = (fn \<in> set FNS_keys \<and> list_all knownAst kids)"
| "knownAst (OtherKind k) = False"

definition knownCells :: "(cellId \<times> 'r Ast) list \<Rightarrow> bool" where
  "knownCells obj = list_all (\<lambda>p. knownAst (snd p)) obj"

section \<open>Properties\<close>

subsection \<open>Auxiliary facts\<close>

lemma map_of_assign [simp]: "map_of (assign k v ps) = (map_of ps)(k \<mapsto> v)"
  by (induction ps) auto

lemmas run_simps =
  eval_def parse_examples_def toText_examples_def makeSpreadsheet_def
  findDependentCells_def findDependentCells2_def coverCell_def recoverCell_def
  hasOwnProperty_def FNS_keys_def FNS_def exact_def delete_key_def Let_def

text \<open>The sheets of the examples are reached by edits of a new spreadsheet.\<close>

lemma reach_sheet_b1:
  "eval (Suc (Suc (Suc (Suc n)))) parse_examples toText_examples makeSpreadsheet ''b1'' ''a1+1''
     = (Return (okResult [(''b1'', Integral 1)]), sheet_b1)"
  by (simp add: run_simps sheet_b1_def)

lemma reach_sheet_b1_c1:
  "eval (Suc (Suc (Suc (Suc (Suc (Suc n)))))) parse_examples toText_examples sheet_b1 ''c1'' ''b1+1''
     = (Return (okResult [(''c1'', Integral 2)]), sheet_b1_c1)"
  by (simp add: run_simps sheet_b1_def sheet_b1_c1_def)

lemma reach_sheet_b1_c1_direct:
  "eval (Suc (Suc (Suc n))) parse_examples toText_examples sheet_b1 ''c1'' ''a1''
     = (Return (okResult [(''c1'', Integral 0)]), sheet_b1_c1_direct)"
  by (simp add: run_simps sheet_b1_def sheet_b1_c1_direct_def)

lemma reach_sheet_a1:
  "eval (Suc (Suc (Suc (Suc n)))) parse_examples toText_examples makeSpreadsheet ''a1'' ''b1+1''
     = (Return (okResult [(''a1'', Integral 1)]), sheet_a1)"
  by (simp add: run_simps sheet_a1_def)

lemma reach_sheet_a1_stale:
  "eval (Suc (Suc (Suc (Suc n)))) parse_examples toText_examples makeSpreadsheet ''a1'' ''a1+1''
     = (Return (errResult CIRCULAR_REF), sheet_a1_stale)"
  by (simp add: run_simps sheet_a1_stale_def)

lemma reach_sheet_a1_b1_stale:
  "eval (Suc (Suc (Suc (Suc (Suc (Suc (Suc n))))))) parse_examples toText_examples sheet_a1 ''b1'' ''a1+1''
     = (Return (errResult CIRCULAR_REF), sheet_a1_b1_stale)"
  by (simp add: run_simps sheet_a1_def sheet_a1_b1_stale_def)

subsection \<open>Recursion that never ends\<close>

text \<open>With the self-reference of \<open>a1\<close> left in staging, evaluating \<open>a1\<close> on behalf of
  \<open>b1\<close> exhausts every call depth: the cycle check compares with \<open>b1\<close> only.\<close>

lemma stale_a1_loops:
  "evaluateAndUpdate n toText_examples
      \<lparr>cells = [], shadowCells = [(''a1'', a1_plus_1), (''b1'', Ref ''a1'')]\<rparr> ''a1'' [] ''b1''
     = (OutOfStack, \<lparr>cells = [], shadowCells = [(''a1'', a1_plus_1), (''b1'', Ref ''a1'')]\<rparr>, [])
   \<and> evaluateFormula n toText_examples
      \<lparr>cells = [], shadowCells = [(''a1'', a1_plus_1), (''b1'', Ref ''a1'')]\<rparr>
      ''a1'' (Ref ''a1'') [] ''b1''
     = (OutOfStack, \<lparr>cells = [], shadowCells = [(''a1'', a1_plus_1), (''b1'', Ref ''a1'')]\<rparr>, [])
   \<and> evaluateFormula n toText_examples
      \<lparr>cells = [], shadowCells = [(''a1'', a1_plus_1), (''b1'', Ref ''a1'')]\<rparr>
      ''a1'' a1_plus_1 [] ''b1''
     = (OutOfStack, \<lparr>cells = [], shadowCells = [(''a1'', a1_plus_1), (''b1'', Ref ''a1'')]\<rparr>, [])"
  by (induction n) (simp_all add: toText_examples_def hasOwnProperty_def Let_def)

lemma stale_a1_b1_loops:
  "evaluateAndUpdate n toText_examples
      \<lparr>cells = [(''a1'', b1_plus_1)],
       shadowCells = [(''a1'', b1_plus_1), (''b1'', a1_plus_1), (''c1'', Ref ''b1'')]\<rparr>
      ''b1'' [] ''c1''
     = (OutOfStack, \<lparr>cells = [(''a1'', b1_plus_1)],
         shadowCells = [(''a1'', b1_plus_1), (''b1'', a1_plus_1), (''c1'', Ref ''b1'')]\<rparr>, [])
   \<and> evaluateFormula n toText_examples
      \<lparr>cells = [(''a1'', b1_plus_1)],
       shadowCells = [(''a1'', b1_plus_1), (''b1'', a1_plus_1), (''c1'', Ref ''b1'')]\<rparr>
      ''b1'' a1_plus_1 [] ''c1''
     = (OutOfStack, \<lparr>cells = [(''a1'', b1_plus_1)],
         shadowCells = [(''a1'', b1_plus_1), (''b1'', a1_plus_1), (''c1'', Ref ''b1'')]\<rparr>, [])
   \<and> evaluateFormula n toText_examples
      \<lparr>cells = [(''a1'', b1_plus_1)],
       shadowCells = [(''a1'', b1_plus_1), (''b1'', a1_plus_1), (''c1'', Ref ''b1'')]\<rparr>
      ''b1'' (Ref ''a1'') [] ''c1''
     = (OutOfStack, \<lparr>cells = [(''a1'', b1_plus_1)],
         shadowCells = [(''a1'', b1_plus_1), (''b1'', a1_plus_1), (''c1'', Ref ''b1'')]\<rparr>, [])
   \<and> evaluateAndUpdate n toText_examples
      \<lparr>cells = [(''a1'', b1_plus_1)],
       shadowCells = [(''a1'', b1_plus_1), (''b1'', a1_plus_1), (''c1'', Ref ''b1'')]\<rparr>
      ''a1'' [] ''c1''
     = (OutOfStack, \<lparr>cells = [(''a1'', b1_plus_1)],
         shadowCells = [(''a1'', b1_plus_1), (''b1'', a1_plus_1), (''c1'', Ref ''b1'')]\<rparr>, [])
   \<and> evaluateFormula n toText_examples
      \<lparr>cells = [(''a1'', b1_plus_1)],
       shadowCells = [(''a1'', b1_plus_1), (''b1'', a1_plus_1), (''c1'', Ref ''b1'')]\<rparr>
      ''a1'' b1_plus_1 [] ''c1''
     = (OutOfStack, \<lparr>cells = [(''a1'', b1_plus_1)],
         shadowCells = [(''a1'', b1_plus_1), (''b1'', a1_plus_1), (''c1'', Ref ''b1'')]\<rparr>, [])
   \<and> evaluateFormula n toText_examples
      \<lparr>cells = [(''a1'', b1_plus_1)],
       shadowCells = [(''a1'', b1_plus_1), (''b1'', a1_plus_1), (''c1'', Ref ''b1'')]\<rparr>
      ''a1'' (Ref ''b1'') [] ''c1''
     = (OutOfStack, \<lparr>cells = [(''a1'', b1_plus_1)],
         shadowCells = [(''a1'', b1_plus_1), (''b1'', a1_plus_1), (''c1'', Ref ''b1'')]\<rparr>, [])"
  by (induction n) (simp_all add: toText_examples_def hasOwnProperty_def Let_def)

subsection \<open>Parse failures\<close>

text \<open>
  Claim C6. When the parser throws or returns an error, \<open>eval\<close> returns an error
  \<open>Result\<close> with code \<open>SYNTAX\<close>, and the spreadsheet it leaves is the one it was
  given: the committed and the staging map are both untouched.
\<close>

theorem eval_syntax_error_no_mutation:
  "parse expr cellId = ParseThrows \<or> parse expr cellId = ParseError \<Longrightarrow>
     eval n parse toText ss cellId expr = (Return (errResult SYNTAX), ss)"
  by (auto simp: eval_def)

theorem eval_syntax_error_no_mutation_witness:
  "(parse_examples ''1+'' ''a1'' = ParseThrows \<or> parse_examples ''1+'' ''a1'' = ParseError)
   \<and> eval 5 parse_examples toText_examples sheet_b1 ''a1'' ''1+''
       = (Return (errResult SYNTAX), sheet_b1)"
  using eval_syntax_error_no_mutation
          [of parse_examples "''1+''" "''a1''" 5 toText_examples sheet_b1]
  by (simp add: parse_examples_def)

subsection \<open>The update map\<close>

text \<open>
  Claim C1 fails on the code. With \<open>b1 = a1+1\<close> and \<open>c1 = b1+1\<close> committed, \<open>c1\<close>
  depends on \<open>b1\<close> and \<open>b1\<close> on \<open>a1\<close>, yet editing \<open>a1\<close> to \<open>5\<close> returns the
  map \<open>{a1: 5, b1: 6}\<close>: \<open>c1\<close> is recomputed and then deleted again, because
  \<open>findDependentCells2\<close> keeps direct dependents only. With \<open>b1 = a1+1\<close> and
  \<open>c1 = a1\<close> committed, both depend on \<open>a1\<close> directly, and the same edit again
  returns \<open>{a1: 5, b1: 6}\<close>: the loop of \<open>evaluateAndUpdate\<close> overwrites
  \<open>parentCellId\<close> at the first dependent, so that its test fails for every later
  one.
\<close>

theorem eval_drops_dependents:
  "eval (Suc (Suc (Suc (Suc (Suc (Suc n)))))) parse_examples toText_examples
      sheet_b1_c1 ''a1'' ''5''
     = (Return (okResult [(''a1'', Integral 5), (''b1'', Integral 6)]),
        \<lparr>cells = [(''b1'', a1_plus_1), (''c1'', b1_plus_1), (''a1'', Num (Integral 5))],
         shadowCells = [(''b1'', a1_plus_1), (''c1'', b1_plus_1), (''a1'', Num (Integral 5))]\<rparr>)
   \<and> isDependent toText_examples b1_plus_1 ''c1'' ''b1''
   \<and> isDependent toText_examples a1_plus_1 ''b1'' ''a1''
   \<and> eval (Suc (Suc (Suc (Suc (Suc (Suc n)))))) parse_examples toText_examples
      sheet_b1_c1_direct ''a1'' ''5''
     = (Return (okResult [(''a1'', Integral 5), (''b1'', Integral 6)]),
        \<lparr>cells = [(''b1'', a1_plus_1), (''c1'', Ref ''a1''), (''a1'', Num (Integral 5))],
         shadowCells = [(''b1'', a1_plus_1), (''c1'', Ref ''a1''), (''a1'', Num (Integral 5))]\<rparr>)
   \<and> isDependent toText_examples (Ref ''a1'') ''c1'' ''a1''"
  by (simp add: run_simps sheet_b1_c1_def sheet_b1_c1_direct_def)

subsection \<open>Rollback after a cycle fault\<close>

text \<open>
  Claim C2 fails on the code. On a new spreadsheet, the edit \<open>a1 = a1+1\<close> fails with
  \<open>CIRCULAR_REF\<close>; \<open>recoverCell\<close> finds no committed formula for \<open>a1\<close> and does
  nothing, so the rejected formula stays in \<open>shadowCells\<close> with no committed
  counterpart.
\<close>

theorem failed_edit_of_empty_cell_stays_staged:
  "eval (Suc (Suc (Suc (Suc n)))) parse_examples toText_examples makeSpreadsheet ''a1'' ''a1+1''
     = (Return (errResult CIRCULAR_REF), \<lparr>cells = [], shadowCells = [(''a1'', a1_plus_1)]\<rparr>)
   \<and> recoverCell \<lparr>cells = [], shadowCells = [(''a1'', a1_plus_1)]\<rparr> ''a1''
     = \<lparr>cells = [], shadowCells = [(''a1'', a1_plus_1)]\<rparr>"
  by (simp add: run_simps)

text \<open>
  Claim C3 fails on the code. A new spreadsheet has equal maps; after the single call
  \<open>eval("a1", "a1+1")\<close> has returned \<open>CIRCULAR_REF\<close>, \<open>shadowCells\<close> has an entry
  for \<open>a1\<close> and \<open>cells\<close> has none.
\<close>

theorem staging_differs_after_cycle_error:
  "shadowCells (makeSpreadsheet :: cellId spreadsheet) = cells (makeSpreadsheet :: cellId spreadsheet)
   \<and> fst (eval (Suc (Suc (Suc (Suc n)))) parse_examples toText_examples makeSpreadsheet
             ''a1'' ''a1+1'') = Return (errResult CIRCULAR_REF)
   \<and> shadowCells (snd (eval (Suc (Suc (Suc (Suc n)))) parse_examples toText_examples
                          makeSpreadsheet ''a1'' ''a1+1''))
     \<noteq> cells (snd (eval (Suc (Suc (Suc (Suc n)))) parse_examples toText_examples
                      makeSpreadsheet ''a1'' ''a1+1''))"
  by (simp add: run_simps)

text \<open>
  Claim C5 holds in its error codes and for the committed map, and fails for the state
  of \<open>b1\<close>. The edit \<open>a1 = a1+1\<close> fails with \<open>CIRCULAR_REF\<close> on every spreadsheet
  and leaves \<open>cells\<close> as it was. After \<open>a1 = b1+1\<close> has given \<open>a1 = 1\<close>, the edit
  \<open>b1 = a1+1\<close> fails with \<open>CIRCULAR_REF\<close> and leaves \<open>cells\<close> as it was, but
  \<open>b1\<close>, empty before, now has the rejected formula in \<open>shadowCells\<close>, the map the
  evaluator reads: the next edit \<open>c1 = b1\<close> does not yield \<open>c1 = 0\<close>, it exhausts
  every call depth.
\<close>

theorem two_cell_cycle_leaves_b1_staged:
  "fst (eval (Suc (Suc (Suc (Suc n)))) parse_examples toText_examples ss ''a1'' ''a1+1'')
     = Return (errResult CIRCULAR_REF)
   \<and> cells (snd (eval (Suc (Suc (Suc (Suc n)))) parse_examples toText_examples ss ''a1'' ''a1+1''))
     = cells ss
   \<and> eval (Suc (Suc (Suc (Suc n)))) parse_examples toText_examples makeSpreadsheet ''a1'' ''b1+1''
     = (Return (okResult [(''a1'', Integral 1)]), sheet_a1)
   \<and> eval (Suc (Suc (Suc (Suc (Suc (Suc (Suc n))))))) parse_examples toText_examples
        sheet_a1 ''b1'' ''a1+1''
     = (Return (errResult CIRCULAR_REF),
        \<lparr>cells = cells sheet_a1, shadowCells = [(''a1'', b1_plus_1), (''b1'', a1_plus_1)]\<rparr>)
   \<and> map_of (shadowCells sheet_a1) ''b1'' = None
   \<and> fst (eval m parse_examples toText_examples
        \<lparr>cells = cells sheet_a1, shadowCells = [(''a1'', b1_plus_1), (''b1'', a1_plus_1)]\<rparr>
        ''c1'' ''b1'') = OutOfStack"
proof -
  have self: "eval (Suc (Suc (Suc (Suc n)))) parse_examples toText_examples ss ''a1'' ''a1+1''
     = (Return (errResult CIRCULAR_REF),
        recoverCell (ss\<lparr>shadowCells := assign ''a1'' a1_plus_1 (shadowCells ss)\<rparr>) ''a1'')"
    by (simp add: eval_def parse_examples_def toText_examples_def Let_def)
  have kept: "cells (recoverCell (ss\<lparr>shadowCells := assign ''a1'' a1_plus_1 (shadowCells ss)\<rparr>) ''a1'')
     = cells ss"
    by (simp add: recoverCell_def split: option.splits)
  have "evaluateAndUpdate m toText_examples
      \<lparr>cells = [(''a1'', b1_plus_1)],
       shadowCells = [(''a1'', b1_plus_1), (''b1'', a1_plus_1), (''c1'', Ref ''b1'')]\<rparr>
      ''c1'' [] ''c1''
     = (OutOfStack, \<lparr>cells = [(''a1'', b1_plus_1)],
         shadowCells = [(''a1'', b1_plus_1), (''b1'', a1_plus_1), (''c1'', Ref ''b1'')]\<rparr>, [])"
  proof (cases m)
    case 0
    then show ?thesis by simp
  next
    case (Suc k)
    then show ?thesis
      using stale_a1_b1_loops [of "k - 1"]
      by (cases k) (simp_all add: toText_examples_def hasOwnProperty_def Let_def)
  qed
  then have loops: "fst (eval m parse_examples toText_examples
        \<lparr>cells = cells sheet_a1, shadowCells = [(''a1'', b1_plus_1), (''b1'', a1_plus_1)]\<rparr>
        ''c1'' ''b1'') = OutOfStack"
    by (simp add: eval_def parse_examples_def sheet_a1_def)
  show ?thesis
    using loops by (simp add: self kept) (simp add: run_simps sheet_a1_def)
qed

subsection \<open>Termination\<close>

text \<open>
  Claim C7 fails on the code. On a new spreadsheet the edit \<open>a1 = a1+1\<close> is rejected and
  leaves its formula in staging; the next edit, \<open>b1 = a1\<close>, evaluates \<open>a1\<close> with
  \<open>b1\<close> as the parent, the reference of \<open>a1\<close> to itself is never equal to the
  parent and \<open>a1\<close> is never memoized, so the call is out of stack at every depth
  \<open>m\<close>: the recursion has no bound and no cycle fault is raised.
\<close>

theorem eval_recurses_without_bound:
  "eval m parse_examples toText_examples
     (snd (eval (Suc (Suc (Suc (Suc n)))) parse_examples toText_examples makeSpreadsheet
             ''a1'' ''a1+1''))
     ''b1'' ''a1''
   = (OutOfStack, \<lparr>cells = [], shadowCells = [(''a1'', a1_plus_1), (''b1'', Ref ''a1'')]\<rparr>)"
proof -
  have first: "snd (eval (Suc (Suc (Suc (Suc n)))) parse_examples toText_examples makeSpreadsheet
             ''a1'' ''a1+1'') = \<lparr>cells = [], shadowCells = [(''a1'', a1_plus_1)]\<rparr>"
    by (simp add: run_simps)
  have "evaluateAndUpdate m toText_examples
      \<lparr>cells = [], shadowCells = [(''a1'', a1_plus_1), (''b1'', Ref ''a1'')]\<rparr> ''b1'' [] ''b1''
     = (OutOfStack, \<lparr>cells = [], shadowCells = [(''a1'', a1_plus_1), (''b1'', Ref ''a1'')]\<rparr>, [])"
  proof (cases m)
    case 0
    then show ?thesis by simp
  next
    case (Suc k)
    then show ?thesis
      using stale_a1_loops [of "k - 1"]
      by (cases k) (simp_all add: toText_examples_def hasOwnProperty_def Let_def)
  qed
  then show ?thesis
    unfolding first by (simp add: eval_def parse_examples_def)
qed

subsection \<open>References\<close>

text \<open>The three cells are reached by edits of a new spreadsheet, and the edit
  \<open>c1 = b1\<close>, which would close a cycle through all three, is rejected and rolled
  back: evaluating \<open>b1\<close> and then \<open>a1\<close> keeps \<open>c1\<close> as the parent, and the
  reference of \<open>a1\<close> to \<open>c1\<close> is found.\<close>

lemma reach_sheet_three_cells:
  "eval (Suc (Suc n)) parse_examples toText_examples makeSpreadsheet ''c1'' ''1''
     = (Return (okResult [(''c1'', Integral 1)]),
        \<lparr>cells = [(''c1'', Num (Integral 1))], shadowCells = [(''c1'', Num (Integral 1))]\<rparr>)"
  "eval (Suc (Suc (Suc (Suc n)))) parse_examples toText_examples
      \<lparr>cells = [(''c1'', Num (Integral 1))], shadowCells = [(''c1'', Num (Integral 1))]\<rparr>
      ''a1'' ''c1''
     = (Return (okResult [(''a1'', Integral 1)]),
        \<lparr>cells = [(''c1'', Num (Integral 1)), (''a1'', Ref ''c1'')],
         shadowCells = [(''c1'', Num (Integral 1)), (''a1'', Ref ''c1'')]\<rparr>)"
  "eval (Suc (Suc (Suc (Suc (Suc (Suc n)))))) parse_examples toText_examples
      \<lparr>cells = [(''c1'', Num (Integral 1)), (''a1'', Ref ''c1'')],
       shadowCells = [(''c1'', Num (Integral 1)), (''a1'', Ref ''c1'')]\<rparr>
      ''b1'' ''a1''
     = (Return (okResult [(''b1'', Integral 1)]), sheet_three_cells)"
  by (simp_all add: run_simps sheet_three_cells_def)

lemma three_cell_cycle_is_detected:
  "sheet_three_cells\<lparr>shadowCells := assign ''c1'' (Ref ''b1'') (shadowCells sheet_three_cells)\<rparr>
     = sheet_three_cycle"
  "eval (Suc (Suc (Suc (Suc (Suc (Suc n)))))) parse_examples toText_examples sheet_three_cells
      ''c1'' ''b1''
     = (Return (errResult CIRCULAR_REF), sheet_three_cells)"
  by (simp_all add: run_simps sheet_three_cells_def sheet_three_cycle_def)

lemma forDependents_other_parent:
  "cellId \<noteq> parentCellId \<Longrightarrow>
     forDependents n toText ss cellId dependents updatedCells parentCellId
       = (Return (), ss, updatedCells)"
  by (induction dependents) simp_all

text \<open>
  Claim C4, as stated, fails on the code: the recursive call passes \<open>parentCellId\<close> on
  as it is, it does not replace it by the cell whose formula holds the reference. In
  the sheet of the three cells \<open>c1 = b1\<close>, \<open>a1 = c1\<close>, \<open>b1 = a1\<close>, with \<open>c1\<close> the
  edited cell, resolving the reference of \<open>b1\<close> to \<open>a1\<close> evaluates \<open>a1\<close> with parent
  \<open>c1\<close>, finds the cycle at \<open>a1\<close>'s reference to \<open>c1\<close> and restores \<open>c1\<close>;
  evaluating \<open>a1\<close> with parent \<open>b1\<close> instead goes on to \<open>c1\<close>, faults on
  \<open>b1\<close> and restores nothing.
\<close>

theorem ref_parent_updated_counterexample:
  "toText_examples ''a1'' ''b1'' \<noteq> ''c1''
   \<and> hasOwnProperty (shadowCells sheet_three_cycle) (toText_examples ''a1'' ''b1'')
   \<and> \<not> hasOwnProperty ([] :: Updates) (toText_examples ''a1'' ''b1'')
   \<and> evaluateFormula 5 toText_examples sheet_three_cycle ''b1'' (Ref ''a1'') [] ''c1''
       = (Throw (CircularReferenceError ''c1''),
          \<lparr>cells = [(''c1'', Num (Integral 1)), (''a1'', Ref ''c1''), (''b1'', Ref ''a1'')],
           shadowCells = [(''c1'', Num (Integral 1)), (''a1'', Ref ''c1''), (''b1'', Ref ''a1'')]\<rparr>,
          [])
   \<and> evaluateAndUpdate 4 toText_examples sheet_three_cycle ''a1'' [] ''b1''
       = (Throw (CircularReferenceError ''b1''), sheet_three_cycle, [])
   \<and> evaluateFormula 5 toText_examples sheet_three_cycle ''b1'' (Ref ''a1'') [] ''c1''
       \<noteq> evaluateAndUpdate 4 toText_examples sheet_three_cycle (toText_examples ''a1'' ''b1'')
            [] ''b1''"
  by (simp add: eval_nat_numeral toText_examples_def sheet_three_cycle_def hasOwnProperty_def
        recoverCell_def Let_def)

text \<open>
  Claim C4 as amended. When a \<open>Ref\<close> node resolves to a target cell that is not the
  parent cell, has the formula \<open>cell\<close> in staging and is not memoized, the evaluator
  calls \<open>evaluateAndUpdate\<close> on the target with the memo and with \<open>parentCellId\<close>
  unchanged; that call evaluates \<open>cell\<close> as the formula of the target, again with
  \<open>parentCellId\<close> unchanged, stores the value under the target in the memo and
  returns it; a fault of that evaluation is passed on.
\<close>

theorem ref_evaluates_target_with_same_parent:
  assumes "toText r basecellId \<noteq> parentCellId"
    and "map_of (shadowCells ss) (toText r basecellId) = Some cell"
    and "map_of updatedCells (toText r basecellId) = None"
  shows "evaluateFormula (Suc (Suc n)) toText ss basecellId (Ref r) updatedCells parentCellId
           = evaluateAndUpdate (Suc n) toText ss (toText r basecellId) updatedCells parentCellId
         \<and> evaluateAndUpdate (Suc n) toText ss (toText r basecellId) updatedCells parentCellId
           = (case evaluateFormula n toText ss (toText r basecellId) cell updatedCells
                    parentCellId of
                (Return v, ss1, upd1) \<Rightarrow> (Return v, ss1, assign (toText r basecellId) v upd1)
              | (Throw e, ss1, upd1) \<Rightarrow> (Throw e, ss1, upd1)
              | (OutOfStack, ss1, upd1) \<Rightarrow> (OutOfStack, ss1, upd1))"
  using assms
  by (simp add: hasOwnProperty_def Let_def forDependents_other_parent
        split: prod.splits outcome.splits)

theorem ref_evaluates_target_with_same_parent_witness:
  "toText_examples ''a1'' ''b1'' \<noteq> ''c1''
   \<and> map_of (shadowCells sheet_three_cycle) (toText_examples ''a1'' ''b1'') = Some (Ref ''c1'')
   \<and> map_of ([] :: Updates) (toText_examples ''a1'' ''b1'') = None
   \<and> evaluateFormula (Suc (Suc (Suc 0))) toText_examples sheet_three_cycle ''b1'' (Ref ''a1'')
         [] ''c1''
       = evaluateAndUpdate (Suc (Suc 0)) toText_examples sheet_three_cycle ''a1'' [] ''c1''
   \<and> evaluateAndUpdate (Suc (Suc 0)) toText_examples sheet_three_cycle ''a1'' [] ''c1''
       = (Throw (CircularReferenceError ''c1''),
          \<lparr>cells = [(''c1'', Num (Integral 1)), (''a1'', Ref ''c1''), (''b1'', Ref ''a1'')],
           shadowCells = [(''c1'', Num (Integral 1)), (''a1'', Ref ''c1''), (''b1'', Ref ''a1'')]\<rparr>,
          [])"
  using ref_evaluates_target_with_same_parent
          [of toText_examples "''a1''" "''b1''" "''c1''" sheet_three_cycle "Ref ''c1''" "[]"
              "Suc 0"]
  by (simp add: toText_examples_def sheet_three_cycle_def recoverCell_def Let_def)

subsection \<open>Editing a cell to a constant\<close>

lemma fold_delete_key_other:
  "k \<notin> set ks \<Longrightarrow> fold delete_key ks [(k, v)] = [(k, v)]"
  by (induction ks) (simp_all add: delete_key_def)

lemma base_not_in_findDependentCells2:
  "baseCellId \<notin> set (findDependentCells2 toText ss baseCellId)"
  by (auto simp: findDependentCells2_def)

text \<open>
  Claim C8. Editing a cell to a numeric constant, in a sheet where no formula refers to
  that cell, yields the update map with exactly that cell and that value; so
  \<open>eval("a1", "5")\<close> on a new spreadsheet yields \<open>{a1: 5}\<close>. After \<open>b1\<close> has been
  set to \<open>a1+1\<close> (which yields \<open>{b1: 1}\<close> and the sheet \<open>sheet_b1\<close>),
  \<open>eval("a1", "5")\<close> yields \<open>{a1: 5, b1: 6}\<close>. Each holds at every call depth from
  the one shown on.
\<close>

theorem constant_edit_update_map:
  "(parse expr cellId = ParseOk (Num v)
      \<and> findDependentCells toText
           (ss\<lparr>shadowCells := assign cellId (Num v) (shadowCells ss)\<rparr>) cellId = []
    \<longrightarrow> fst (eval (Suc (Suc n)) parse toText ss cellId expr) = Return (okResult [(cellId, v)]))
   \<and> eval (Suc (Suc n)) parse_examples toText_examples makeSpreadsheet ''a1'' ''5''
       = (Return (okResult [(''a1'', Integral 5)]),
          \<lparr>cells = [(''a1'', Num (Integral 5))], shadowCells = [(''a1'', Num (Integral 5))]\<rparr>)
   \<and> eval (Suc (Suc (Suc (Suc n)))) parse_examples toText_examples makeSpreadsheet
         ''b1'' ''a1+1''
       = (Return (okResult [(''b1'', Integral 1)]), sheet_b1)
   \<and> eval (Suc (Suc (Suc (Suc (Suc (Suc n)))))) parse_examples toText_examples sheet_b1
         ''a1'' ''5''
       = (Return (okResult [(''a1'', Integral 5), (''b1'', Integral 6)]),
          \<lparr>cells = [(''b1'', a1_plus_1), (''a1'', Num (Integral 5))],
           shadowCells = [(''b1'', a1_plus_1), (''a1'', Num (Integral 5))]\<rparr>)"
proof -
  have "fst (eval (Suc (Suc n)) parse toText ss cellId expr) = Return (okResult [(cellId, v)])"
    if "parse expr cellId = ParseOk (Num v)"
      and "findDependentCells toText
             (ss\<lparr>shadowCells := assign cellId (Num v) (shadowCells ss)\<rparr>) cellId = []"
    using that
    by (simp add: eval_def fold_delete_key_other base_not_in_findDependentCells2)
  moreover
  have "eval (Suc (Suc n)) parse_examples toText_examples makeSpreadsheet ''a1'' ''5''
       = (Return (okResult [(''a1'', Integral 5)]),
          \<lparr>cells = [(''a1'', Num (Integral 5))], shadowCells = [(''a1'', Num (Integral 5))]\<rparr>)"
    by (simp add: run_simps)
  moreover
  have "eval (Suc (Suc (Suc (Suc n)))) parse_examples toText_examples makeSpreadsheet
         ''b1'' ''a1+1''
       = (Return (okResult [(''b1'', Integral 1)]), sheet_b1)"
    by (simp add: run_simps sheet_b1_def)
  moreover
  have "eval (Suc (Suc (Suc (Suc (Suc (Suc n)))))) parse_examples toText_examples sheet_b1
         ''a1'' ''5''
       = (Return (okResult [(''a1'', Integral 5), (''b1'', Integral 6)]),
          \<lparr>cells = [(''b1'', a1_plus_1), (''a1'', Num (Integral 5))],
           shadowCells = [(''b1'', a1_plus_1), (''a1'', Num (Integral 5))]\<rparr>)"
    by (simp add: run_simps sheet_b1_def)
  ultimately show ?thesis by blast
qed

theorem constant_edit_update_map_witness:
  "parse_examples ''5'' ''c1'' = ParseOk (Num (Integral 5))
   \<and> findDependentCells toText_examples
        (sheet_b1\<lparr>shadowCells := assign ''c1'' (Num (Integral 5)) (shadowCells sheet_b1)\<rparr>)
        ''c1'' = []
   \<and> fst (eval (Suc (Suc 0)) parse_examples toText_examples sheet_b1 ''c1'' ''5'')
       = Return (okResult [(''c1'', Integral 5)])"
proof -
  have p: "parse_examples ''5'' ''c1'' = ParseOk (Num (Integral 5))"
    by (simp add: parse_examples_def)
  have d: "findDependentCells toText_examples
        (sheet_b1\<lparr>shadowCells := assign ''c1'' (Num (Integral 5)) (shadowCells sheet_b1)\<rparr>)
        ''c1'' = []"
    by (simp add: findDependentCells_def toText_examples_def sheet_b1_def)
  from constant_edit_update_map
         [of parse_examples "''5''" "''c1''" "Integral 5" toText_examples sheet_b1 0]
       p d
  show ?thesis by blast
qed

subsection \<open>Operator applications\<close>




subsection \<open>What an evaluation leaves behind\<close>

text \<open>An evaluation never writes to \<open>cells\<close>, and it writes to \<open>shadowCells\<close> only
  when it ends in the cycle fault.\<close>

lemma cells_recoverCell [simp]: "cells (recoverCell ss cellId) = cells ss"
  by (simp add: recoverCell_def split: option.splits)

lemma evaluateOperands_keeps_step:
  assumes F0: "\<forall>ss c ast upd p r ss' upd'.
     evaluateFormula n toText ss c ast upd p = (r, ss', upd')
       \<longrightarrow> cells ss' = cells ss \<and> (cycleFault r \<or> ss' = ss)"
  shows "evaluateOperands n toText ss c kids upd p = (rs, ss', upd')
           \<Longrightarrow> cells ss' = cells ss \<and> (cycleFault rs \<or> ss' = ss)"
proof (induction kids arbitrary: ss upd rs ss' upd')
  case Nil
  then show ?case by simp
next
  case (Cons k ks)
  obtain r1 s1 u1 where e1: "evaluateFormula n toText ss c k upd p = (r1, s1, u1)"
    by (cases "evaluateFormula n toText ss c k upd p") auto
  obtain r2 s2 u2 where e2: "evaluateOperands n toText s1 c ks u1 p = (r2, s2, u2)"
    by (cases "evaluateOperands n toText s1 c ks u1 p") auto
  from F0 e1 have "cells s1 = cells ss \<and> (cycleFault r1 \<or> s1 = ss)" by blast
  with Cons.prems e1 e2 Cons.IH [OF e2] show ?case
    by (cases r1; cases r2) auto
qed

lemma forDependents_keeps_step:
  assumes A0: "\<forall>ss c upd p r ss' upd'.
     evaluateAndUpdate n toText ss c upd p = (r, ss', upd')
       \<longrightarrow> cells ss' = cells ss \<and> (cycleFault r \<or> ss' = ss)"
  shows "forDependents n toText ss c ds upd p = (ru, ss', upd')
           \<Longrightarrow> cells ss' = cells ss \<and> (cycleFault ru \<or> ss' = ss)"
proof (induction ds arbitrary: ss upd p ru ss' upd')
  case Nil
  then show ?case by simp
next
  case (Cons d ds)
  obtain r1 s1 u1 where e1: "evaluateAndUpdate n toText ss d upd d = (r1, s1, u1)"
    by (cases "evaluateAndUpdate n toText ss d upd d") auto
  obtain r2 s2 u2 where e2: "forDependents n toText s1 c ds u1 d = (r2, s2, u2)"
    by (cases "forDependents n toText s1 c ds u1 d") auto
  obtain r3 s3 u3 where e3: "forDependents n toText ss c ds upd p = (r3, s3, u3)"
    by (cases "forDependents n toText ss c ds upd p") auto
  from A0 e1 have "cells s1 = cells ss \<and> (cycleFault r1 \<or> s1 = ss)" by blast
  with Cons.prems e1 e2 e3 Cons.IH [OF e2] Cons.IH [OF e3] show ?case
    by (cases r1) (auto split: if_splits)
qed

lemma evaluation_keeps:
  "(\<forall>ss c upd p r ss' upd'.
      evaluateAndUpdate n toText ss c upd p = (r, ss', upd')
        \<longrightarrow> cells ss' = cells ss \<and> (cycleFault r \<or> ss' = ss))
   \<and> (\<forall>ss c ast upd p r ss' upd'.
      evaluateFormula n toText ss c ast upd p = (r, ss', upd')
        \<longrightarrow> cells ss' = cells ss \<and> (cycleFault r \<or> ss' = ss))"
proof (induction n)
  case 0
  then show ?case by simp
next
  case (Suc n)
  have A: "\<And>ss c upd p r ss' upd'.
     evaluateAndUpdate n toText ss c upd p = (r, ss', upd')
       \<Longrightarrow> cells ss' = cells ss \<and> (cycleFault r \<or> ss' = ss)"
    using Suc by blast
  have F: "\<And>ss c ast upd p r ss' upd'.
     evaluateFormula n toText ss c ast upd p = (r, ss', upd')
       \<Longrightarrow> cells ss' = cells ss \<and> (cycleFault r \<or> ss' = ss)"
    using Suc by blast
  note O = evaluateOperands_keeps_step [OF conjunct2 [OF Suc]]
  note D = forDependents_keeps_step [OF conjunct1 [OF Suc]]
  have "cells ss' = cells ss \<and> (cycleFault r \<or> ss' = ss)"
    if run: "evaluateAndUpdate (Suc n) toText ss c upd p = (r, ss', upd')"
    for ss c upd p r ss' upd'
  proof (cases "map_of (shadowCells ss) c")
    case None
    with run show ?thesis by auto
  next
    case (Some cell)
    obtain r1 s1 u1 where e1: "evaluateFormula n toText ss c cell upd p = (r1, s1, u1)"
      by (cases "evaluateFormula n toText ss c cell upd p") auto
    obtain r2 s2 u2 where e2: "forDependents n toText s1 c (findDependentCells toText s1 c)
        (assign c (case r1 of Return v \<Rightarrow> v | _ \<Rightarrow> NonIntegral) u1) p = (r2, s2, u2)"
      by (cases "forDependents n toText s1 c (findDependentCells toText s1 c)
        (assign c (case r1 of Return v \<Rightarrow> v | _ \<Rightarrow> NonIntegral) u1) p") auto
    from run Some e1 e2 F [OF e1] D [OF e2] show ?thesis
      by (cases r1; cases r2) auto
  qed
  moreover
  have "cells ss' = cells ss \<and> (cycleFault r \<or> ss' = ss)"
    if run: "evaluateFormula (Suc n) toText ss c ast upd p = (r, ss', upd')"
    for ss c ast upd p r ss' upd'
  proof (cases ast)
    case (Num v)
    with run show ?thesis by auto
  next
    case (Ref x)
    obtain r1 s1 u1 where e1: "evaluateAndUpdate n toText ss (toText x c) upd p = (r1, s1, u1)"
      by (cases "evaluateAndUpdate n toText ss (toText x c) upd p") auto
    from run Ref e1 A [OF e1] show ?thesis
      by (auto simp: Let_def split: if_splits option.splits)
  next
    case (App fn kids)
    obtain r1 s1 u1 where e1: "evaluateOperands n toText ss c kids upd p = (r1, s1, u1)"
      by (cases "evaluateOperands n toText ss c kids upd p") auto
    from run App e1 O [OF e1] show ?thesis
      by (cases r1) (auto split: if_splits)
  next
    case (OtherKind k)
    with run show ?thesis by auto
  qed
  ultimately show ?case by blast
qed

lemma evaluateAndUpdate_keeps:
  "evaluateAndUpdate n toText ss c upd p = (r, ss', upd')
     \<Longrightarrow> cells ss' = cells ss \<and> (cycleFault r \<or> ss' = ss)"
  using evaluation_keeps by blast


lemma evaluateOperands_keeps:
  "evaluateOperands n toText ss c kids upd p = (rs, ss', upd')
     \<Longrightarrow> cells ss' = cells ss \<and> (cycleFault rs \<or> ss' = ss)"
  using evaluateOperands_keeps_step [OF conjunct2 [OF evaluation_keeps]] .

lemma forDependents_keeps:
  "forDependents n toText ss c ds upd p = (ru, ss', upd')
     \<Longrightarrow> cells ss' = cells ss \<and> (cycleFault ru \<or> ss' = ss)"
  using forDependents_keeps_step [OF conjunct1 [OF evaluation_keeps]] .

text \<open>An edit that returns an error \<open>Result\<close>, \<open>SYNTAX\<close> or \<open>CIRCULAR_REF\<close>, leaves
  the committed map as it was.\<close>

lemma eval_error_keeps_cells:
  assumes "eval n parse toText ss cellId expr = (Return (errResult code), ss')"
  shows "cells ss' = cells ss"
proof (cases "parse expr cellId")
  case ParseThrows
  with assms show ?thesis by (simp add: eval_def)
next
  case ParseError
  with assms show ?thesis by (simp add: eval_def)
next
  case (ParseOk ast)
  obtain r s1 u1 where run: "evaluateAndUpdate n toText
      (ss\<lparr>shadowCells := assign cellId ast (shadowCells ss)\<rparr>) cellId [] cellId = (r, s1, u1)"
    by (cases "evaluateAndUpdate n toText
      (ss\<lparr>shadowCells := assign cellId ast (shadowCells ss)\<rparr>) cellId [] cellId") auto
  from evaluateAndUpdate_keeps [OF run] have keeps: "cells s1 = cells ss" by simp
  show ?thesis
  proof (cases r)
    case (Throw e)
    with assms ParseOk run keeps show ?thesis
      by (cases e) (simp_all add: eval_def)
  qed (use assms ParseOk run in \<open>simp_all add: eval_def\<close>)
qed

subsection \<open>Exceptions other than the cycle fault\<close>







text \<open>A formula whose evaluation returns a value is \<open>knownAst\<close>: every node of it has been
  evaluated.\<close>

lemma evaluateOperands_known_step:
  assumes F0: "\<forall>ss c ast upd p v ss' upd'.
     evaluateFormula n toText ss c ast upd p = (Return v, ss', upd') \<longrightarrow> knownAst ast"
  shows "evaluateOperands n toText ss c kids upd p = (Return vs, ss', upd')
           \<Longrightarrow> list_all knownAst kids"
proof (induction kids arbitrary: ss upd vs ss' upd')
  case Nil
  then show ?case by simp
next
  case (Cons k ks)
  obtain r1 s1 u1 where e1: "evaluateFormula n toText ss c k upd p = (r1, s1, u1)"
    by (cases "evaluateFormula n toText ss c k upd p") auto
  obtain r2 s2 u2 where e2: "evaluateOperands n toText s1 c ks u1 p = (r2, s2, u2)"
    by (cases "evaluateOperands n toText s1 c ks u1 p") auto
  from Cons.prems e1 e2 obtain v ws where r: "r1 = Return v" "r2 = Return ws"
    by (cases r1; cases r2) auto
  from F0 e1 r have "knownAst k" by blast
  moreover from Cons.IH e2 r have "list_all knownAst ks" by blast
  ultimately show ?case by simp
qed

lemma evaluateFormula_known:
  "evaluateFormula n toText ss c ast upd p = (Return v, ss', upd') \<Longrightarrow> knownAst ast"
proof (induction n arbitrary: ss c ast upd p v ss' upd')
  case 0
  then show ?case by simp
next
  case (Suc n)
  have F0: "\<forall>ss c ast upd p v ss' upd'.
     evaluateFormula n toText ss c ast upd p = (Return v, ss', upd') \<longrightarrow> knownAst ast"
    using Suc.IH by blast
  show ?case
  proof (cases ast)
    case (App fn kids)
    obtain r1 s1 u1 where e1: "evaluateOperands n toText ss c kids upd p = (r1, s1, u1)"
      by (cases "evaluateOperands n toText ss c kids upd p") auto
    from Suc.prems App e1 obtain args where r: "r1 = Return args" "fn \<in> set FNS_keys"
      by (cases r1) (auto split: if_splits)
    from evaluateOperands_known_step [OF F0] e1 r have "list_all knownAst kids" by blast
    with App r show ?thesis by simp
  next
    case (OtherKind k)
    with Suc.prems show ?thesis by simp
  qed simp_all
qed

text \<open>Every committed formula is \<open>knownAst\<close>: a new spreadsheet has none, and \<open>eval\<close>
  commits a formula only after its evaluation has returned a value.\<close>

lemma knownCells_makeSpreadsheet: "knownCells (cells makeSpreadsheet)"
  by (simp add: makeSpreadsheet_def knownCells_def)

lemma knownCells_assign:
  "knownCells obj \<Longrightarrow> knownAst ast \<Longrightarrow> knownCells (assign k ast obj)"
  by (induction obj) (auto simp: knownCells_def)

lemma evaluateAndUpdate_known:
  assumes "evaluateAndUpdate n toText ss c upd p = (Return v, ss', upd')"
    and "map_of (shadowCells ss) c = Some ast"
  shows "knownAst ast"
proof (cases n)
  case 0
  with assms show ?thesis by simp
next
  case (Suc m)
  obtain r1 s1 u1 where e1: "evaluateFormula m toText ss c ast upd p = (r1, s1, u1)"
    by (cases "evaluateFormula m toText ss c ast upd p") auto
  with assms Suc obtain w where "r1 = Return w"
    by (cases r1) (auto split: prod.splits outcome.splits)
  with e1 evaluateFormula_known show ?thesis by blast
qed

lemma eval_keeps_cells_known:
  assumes known: "knownCells (cells ss)"
  shows "knownCells (cells (snd (eval n parse toText ss cellId expr)))"
proof (cases "parse expr cellId")
  case ParseThrows
  with known show ?thesis by (simp add: eval_def)
next
  case ParseError
  with known show ?thesis by (simp add: eval_def)
next
  case (ParseOk ast)
  obtain r s1 u1 where run: "evaluateAndUpdate n toText
      (ss\<lparr>shadowCells := assign cellId ast (shadowCells ss)\<rparr>) cellId [] cellId = (r, s1, u1)"
    by (cases "evaluateAndUpdate n toText
      (ss\<lparr>shadowCells := assign cellId ast (shadowCells ss)\<rparr>) cellId [] cellId") auto
  from evaluateAndUpdate_keeps [OF run]
  have keeps: "cells s1 = cells ss"
    "cycleFault r \<or> s1 = ss\<lparr>shadowCells := assign cellId ast (shadowCells ss)\<rparr>"
    by simp_all
  show ?thesis
  proof (cases r)
    case (Return v)
    with run have "knownAst ast"
      using evaluateAndUpdate_known [of n toText _ cellId "[]" cellId v s1 u1 ast] by simp
    with known have "knownCells (assign cellId ast (cells ss))"
      by (simp add: knownCells_assign)
    with ParseOk run Return keeps show ?thesis
      by (simp add: eval_def coverCell_def)
  next
    case (Throw e)
    with ParseOk run keeps known show ?thesis
      by (cases e) (simp_all add: eval_def)
  next
    case OutOfStack
    with ParseOk run keeps known show ?thesis
      by (simp add: eval_def)
  qed
qed



end
